theory Spec2Isabelle
  imports Main
begin

section \<open>Python values, errors and dictionaries\<close>

text \<open>
  The workflow compiler of \<^verbatim>\<open>flytekit/annotated/workflow.py\<close> is duck-typed: the body of a
  workflow function may return \<^verbatim>\<open>None\<close>, one object or a tuple, and the code reads the
  result with attribute access (\<^verbatim>\<open>.val\<close>), subscripts and iteration. The objects that
  reach those operations are modelled by one datatype; every operation that Python would
  answer with an exception returns the exception as a value (\<open>Inl\<close>).
\<close>

datatype py_key = KStr string | KInt nat

datatype py_error =
    Exception string
  | KeyError py_key
  | IndexError
  | TypeError
  | AttributeError
  | ConversionError string

text \<open>\<^verbatim>\<open>Promise(var=k, val=v)\<close> of \<^verbatim>\<open>flytekit.annotated.promise\<close>.\<close>

datatype 'lit promise = Promise (var: string) (val: 'lit)

datatype 'lit pyobj =
    PyNone
  | PyInt int
  | PyStr string
  | PyPromise "'lit promise"
  | OutputReference string string
  | PyTuple "'lit pyobj list"
  | PyDict "(string \<times> 'lit pyobj) list"

type_synonym 'lit kwargs = "(string \<times> 'lit pyobj) list"

text \<open>\<^verbatim>\<open>x.val\<close>: only a Promise has the attribute.\<close>

fun getattr_val :: "'lit pyobj \<Rightarrow> py_error + 'lit" where
  "getattr_val (PyPromise p) = Inr (val p)"
| "getattr_val _ = Inl AttributeError"

text \<open>\<^verbatim>\<open>x[i]\<close> for an index \<open>i \<ge> 0\<close>.\<close>

fun getitem :: "'lit pyobj \<Rightarrow> nat \<Rightarrow> py_error + 'lit pyobj" where
  "getitem (PyTuple xs) i = (if i < length xs then Inr (xs ! i) else Inl IndexError)"
| "getitem (PyStr s) i = (if i < length s then Inr (PyStr [s ! i]) else Inl IndexError)"
| "getitem (PyDict d) i = Inl (KeyError (KInt i))"
| "getitem _ i = Inl TypeError"

text \<open>\<^verbatim>\<open>iter(x)\<close>, run to the end: the elements a \<^verbatim>\<open>for\<close> loop over \<open>x\<close> visits.\<close>

fun iter :: "'lit pyobj \<Rightarrow> py_error + 'lit pyobj list" where
  "iter (PyTuple xs) = Inr xs"
| "iter (PyStr s) = Inr (map (\<lambda>c. PyStr [c]) s)"
| "iter (PyDict d) = Inr (map (\<lambda>kv. PyStr (fst kv)) d)"
| "iter _ = Inl TypeError"

text \<open>
  A Python dict is an association list in insertion order; \<^verbatim>\<open>d[k] = v\<close> replaces the value
  of a key already present (at its place) and appends a new key.
\<close>

fun dict_set :: "'k \<Rightarrow> 'v \<Rightarrow> ('k \<times> 'v) list \<Rightarrow> ('k \<times> 'v) list" where
  "dict_set k v [] = [(k, v)]"
| "dict_set k v (p # ps) = (if fst p = k then (k, v) # ps else p # dict_set k v ps)"

definition dict_keys :: "('k \<times> 'v) list \<Rightarrow> 'k list" where
  "dict_keys d = map fst d"

definition dict_get :: "(string \<times> 'v) list \<Rightarrow> string \<Rightarrow> py_error + 'v" where
  "dict_get d k = (case map_of d k of None \<Rightarrow> Inl (KeyError (KStr k)) | Some v \<Rightarrow> Inr v)"

section \<open>The platform models the compiler builds\<close>

text \<open>
  \<^verbatim>\<open>flytekit.models\<close>: identifiers, typed interfaces, bindings. Literal types, literals and
  nodes belong to collaborators outside this module and stay type parameters
  (\<open>'ty\<close>, \<open>'lit\<close>, \<open>'node\<close>).
\<close>

datatype resource_type = UNSPECIFIED | TASK | WORKFLOW | LAUNCH_PLAN

record Identifier =
  resource_type :: resource_type
  project :: string
  domain :: string
  name :: string
  version :: string

datatype 'ty variable = Variable (var_type: 'ty) (description: string)

record 'ty typed_interface =
  inputs :: "(string \<times> 'ty variable) list"
  outputs :: "(string \<times> 'ty variable) list"

text \<open>
  \<^verbatim>\<open>BindingData(promise=out)\<close>: of the four alternatives of a BindingData (scalar,
  collection, promise, map) the compiler only ever fills \<^verbatim>\<open>promise\<close>.
\<close>

datatype 'lit binding_data = BindingData (promise: "'lit pyobj")

datatype 'lit binding = Binding (binding_var: string) (binding: "'lit binding_data")

text \<open>
  \<^verbatim>\<open>SdkWorkflow(inputs=None, outputs=None, nodes=all_nodes, id=workflow_id, metadata=None,
  metadata_defaults=None, interface=interface, output_bindings=bindings)\<close>: the compiled
  workflow definition. The arguments passed as \<^verbatim>\<open>None\<close> carry nothing and are left out.
\<close>

record ('lit, 'ty, 'node) sdk_workflow =
  nodes :: "'node list"
  sdk_id :: Identifier
  interface :: "'ty typed_interface"
  output_bindings :: "'lit binding list"

section \<open>The execution context\<close>

datatype mode = TASK_EXECUTION | LOCAL_WORKFLOW_EXECUTION

text \<open>
  Modelled from the spec: \<^verbatim>\<open>FlyteContext\<close> and \<^verbatim>\<open>ExecutionState\<close> of
  \<^verbatim>\<open>flytekit.annotated.context_manager\<close> are not among the source files. A context carries
  the live compilation state (the growing node list) when compiling, and the execution
  mode when executing; the two are mutually exclusive.
\<close>

record 'node flyte_context =
  compilation_state :: "'node list option"
  execution_state :: "mode option"

text \<open>
  The process-wide state the module touches: the stack of contexts (its head is
  \<^verbatim>\<open>FlyteContext.current_context()\<close>), the messages given to \<^verbatim>\<open>logger.warning\<close>, and the
  calls of workflow function bodies with the keyword arguments each received, in call
  order.
\<close>

record ('lit, 'node) world =
  ctx_stack :: "'node flyte_context list"
  warnings :: "string list"
  body_calls :: "'lit kwargs list"

definition root_context :: "'node flyte_context" where
  "root_context = \<lparr>compilation_state = None, execution_state = None\<rparr>"

text \<open>Modelled from the spec: with no active context the current one is the empty root.\<close>

definition current_context :: "('lit, 'node) world \<Rightarrow> 'node flyte_context" where
  "current_context w = (case ctx_stack w of [] \<Rightarrow> root_context | c # _ \<Rightarrow> c)"

text \<open>
  Modelled from the spec: entering \<open>COMPILATION\<close> allocates a fresh, empty node list, and
  entering a second compilation context while one is active is an unsupported-nesting
  error.
\<close>

definition new_compilation_context :: "'node flyte_context \<Rightarrow> py_error + 'node flyte_context" where
  "new_compilation_context ctx =
     (if compilation_state ctx \<noteq> None then Inl (Exception ''unsupported nesting'')
      else Inr \<lparr>compilation_state = Some [], execution_state = None\<rparr>)"

text \<open>Modelled from the spec: entering \<open>LOCAL_EXECUTION\<close> carries no node list.\<close>

definition new_execution_context :: "'node flyte_context \<Rightarrow> mode \<Rightarrow> 'node flyte_context" where
  "new_execution_context ctx m = \<lparr>compilation_state = None, execution_state = Some m\<rparr>"

text \<open>
  Modelled from the spec: the scoped acquisition of a \<^verbatim>\<open>with\<close> block pushes the new
  context, and leaving the block, normally or by an exception, restores the one before.
\<close>

definition push_context :: "'node flyte_context \<Rightarrow> ('lit, 'node) world \<Rightarrow> ('lit, 'node) world" where
  "push_context c w = w\<lparr>ctx_stack := c # ctx_stack w\<rparr>"

definition pop_context :: "('lit, 'node) world \<Rightarrow> ('lit, 'node) world" where
  "pop_context w = w\<lparr>ctx_stack := tl (ctx_stack w)\<rparr>"

section \<open>Workflow functions\<close>

text \<open>
  A Python function object: its signature (read by \<^verbatim>\<open>inspect.signature\<close>) and its body. The
  body is given the keyword arguments and runs under the current context; it returns a
  value or raises, and the tasks it calls register nodes (the second component).
\<close>

record ('sig, 'lit, 'node) py_function =
  signature :: 'sig
  body :: "'lit kwargs \<Rightarrow> 'node flyte_context \<Rightarrow> (py_error + 'lit pyobj) \<times> 'node list"

text \<open>
  Modelled from the spec: the node graph builder of the task module (not among the source
  files) appends the nodes of the calls in the body to the active compilation state; under
  a context that is not compiling nothing is registered.
\<close>

definition register_nodes :: "'node list \<Rightarrow> 'node flyte_context list \<Rightarrow> 'node flyte_context list" where
  "register_nodes ns st =
     (case st of
        [] \<Rightarrow> []
      | c # cs \<Rightarrow>
          (case compilation_state c of
             None \<Rightarrow> c # cs
           | Some old \<Rightarrow> c\<lparr>compilation_state := Some (old @ ns)\<rparr> # cs))"

text \<open>\<^verbatim>\<open>fn(**kwargs)\<close>: one call of the function body.\<close>

definition invoke :: "('sig, 'lit, 'node) py_function \<Rightarrow> 'lit kwargs \<Rightarrow> ('lit, 'node) world
    \<Rightarrow> (py_error + 'lit pyobj) \<times> ('lit, 'node) world" where
  "invoke fn kws w =
     (let (r, ns) = body fn kws (current_context w)
      in (r, w\<lparr>ctx_stack := register_nodes ns (ctx_stack w),
               body_calls := body_calls w @ [kws]\<rparr>))"

section \<open>The Workflow class\<close>

text \<open>
  \<^verbatim>\<open>class Workflow\<close>: \<^verbatim>\<open>__init__\<close> stores the function and the compiled definition; the
  decorator sets \<^verbatim>\<open>id\<close> afterwards, so the attribute is absent (\<open>None\<close>) until then.
\<close>

record ('sig, 'lit, 'ty, 'node) Workflow =
  workflow_function :: "('sig, 'lit, 'node) py_function"
  sdk_workflow :: "('lit, 'ty, 'node) sdk_workflow"
  wf_id :: "Identifier option"

definition init :: "('sig, 'lit, 'node) py_function \<Rightarrow> ('lit, 'ty, 'node) sdk_workflow
    \<Rightarrow> ('sig, 'lit, 'ty, 'node) Workflow" where
  "init fn sdk = \<lparr>workflow_function = fn, sdk_workflow = sdk, wf_id = None\<rparr>"

text \<open>
  \<^verbatim>\<open>flytekit.engine\<close>, the type-marshalling collaborator, is not among the source files;
  the two functions of it that the class calls are parameters: converting one native value
  to a literal of a declared type, and converting a literal map (\<^verbatim>\<open>LiteralMap(literals=m)\<close>)
  back to what the invoker returns. Either may raise.
\<close>

record ('lit, 'ty, 'node) engine =
  python_value_to_idl_literal ::
    "'node flyte_context \<Rightarrow> 'lit pyobj \<Rightarrow> 'ty \<Rightarrow> py_error + 'lit"
  idl_literal_map_to_python_value ::
    "'node flyte_context \<Rightarrow> (string \<times> 'lit) list \<Rightarrow> py_error + 'lit pyobj"

text \<open>
  The dict comprehension of \<^verbatim>\<open>_local_execute\<close> (lines 36-40): for each keyword argument in
  order, look the declared input up (\<^verbatim>\<open>inputs[k]\<close>, a KeyError for an undeclared name),
  convert the value to a literal of its type and store it under the argument's name. The
  first exception ends it. \<open>acc\<close> is the dict built so far.
\<close>

fun convert_inputs :: "('lit, 'ty, 'node) engine \<Rightarrow> 'node flyte_context
    \<Rightarrow> (string \<times> 'ty variable) list \<Rightarrow> 'lit kwargs \<Rightarrow> (string \<times> 'lit) list
    \<Rightarrow> py_error + (string \<times> 'lit) list" where
  "convert_inputs eng ctx ins [] acc = Inr acc"
| "convert_inputs eng ctx ins ((k, v) # rest) acc =
     (case dict_get ins k of
        Inl e \<Rightarrow> Inl e
      | Inr x \<Rightarrow>
          (case python_value_to_idl_literal eng ctx v (var_type x) of
             Inl e \<Rightarrow> Inl e
           | Inr l \<Rightarrow> convert_inputs eng ctx ins rest (dict_set k l acc)))"

definition inputs_as_dict_of_literals :: "('lit, 'ty, 'node) engine \<Rightarrow> 'node flyte_context
    \<Rightarrow> (string \<times> 'ty variable) list \<Rightarrow> 'lit kwargs \<Rightarrow> py_error + (string \<times> 'lit) list" where
  "inputs_as_dict_of_literals eng ctx ins kws = convert_inputs eng ctx ins kws []"

text \<open>Lines 46-49: every literal wrapped as a ready Promise under its own name.\<close>

definition inputs_as_wrapped_promises :: "(string \<times> 'lit) list \<Rightarrow> 'lit kwargs" where
  "inputs_as_wrapped_promises ls = map (\<lambda>(k, v). (k, PyPromise (Promise k v))) ls"

text \<open>
  Lines 58-59, the loop of the branch for more than one output:
  \<^verbatim>\<open>output_literal_map[var_name] = function_outputs[idx].val\<close> for each declared name, the
  index counting from the given \<open>idx\<close>.
\<close>

fun collect_outputs :: "'lit pyobj \<Rightarrow> nat \<Rightarrow> string list \<Rightarrow> (string \<times> 'lit) list
    \<Rightarrow> py_error + (string \<times> 'lit) list" where
  "collect_outputs function_outputs idx [] m = Inr m"
| "collect_outputs function_outputs idx (var_name # rest) m =
     (case getitem function_outputs idx of
        Inl e \<Rightarrow> Inl e
      | Inr x \<Rightarrow>
          (case getattr_val x of
             Inl e \<Rightarrow> Inl e
           | Inr v \<Rightarrow> collect_outputs function_outputs (Suc idx) rest (dict_set var_name v m)))"

text \<open>Lines 54-66: from the value the body returned to the value the invoker returns.\<close>

definition return_outputs :: "('lit, 'ty, 'node) engine \<Rightarrow> 'node flyte_context \<Rightarrow> string list
    \<Rightarrow> 'lit pyobj \<Rightarrow> py_error + 'lit pyobj" where
  "return_outputs eng ctx output_names function_outputs =
     (if length output_names > 1 then
        (case collect_outputs function_outputs 0 output_names [] of
           Inl e \<Rightarrow> Inl e
         | Inr m \<Rightarrow> idl_literal_map_to_python_value eng ctx m)
      else if length output_names = 1 then
        (case getattr_val function_outputs of
           Inl e \<Rightarrow> Inl e
         | Inr v \<Rightarrow> idl_literal_map_to_python_value eng ctx (dict_set (output_names ! 0) v []))
      else Inr PyNone)"

text \<open>
  \<^verbatim>\<open>Workflow._local_execute(self, ctx, **kwargs)\<close>. A method may assign to \<^verbatim>\<open>self\<close>, so the
  instance is returned with the result; this one never does.
\<close>

definition local_execute :: "('lit, 'ty, 'node) engine \<Rightarrow> ('sig, 'lit, 'ty, 'node) Workflow
    \<Rightarrow> 'node flyte_context \<Rightarrow> 'lit kwargs \<Rightarrow> ('lit, 'node) world
    \<Rightarrow> (py_error + 'lit pyobj) \<times> ('sig, 'lit, 'ty, 'node) Workflow \<times> ('lit, 'node) world" where
  "local_execute eng self ctx kws w =
     (case inputs_as_dict_of_literals eng ctx (inputs (interface (sdk_workflow self))) kws of
        Inl e \<Rightarrow> (Inl e, self, w\<lparr>warnings := warnings w @ [''Exception!!!'']\<rparr>)
      | Inr literals \<Rightarrow>
          (case invoke (workflow_function self) (inputs_as_wrapped_promises literals) w of
             (Inl e, w') \<Rightarrow> (Inl e, self, w')
           | (Inr function_outputs, w') \<Rightarrow>
               (return_outputs eng ctx (dict_keys (outputs (interface (sdk_workflow self))))
                  function_outputs, self, w')))"

text \<open>\<^verbatim>\<open>Workflow.__call__(self, *args, **kwargs)\<close>.\<close>

definition call :: "('lit, 'ty, 'node) engine \<Rightarrow> ('sig, 'lit, 'ty, 'node) Workflow
    \<Rightarrow> 'lit pyobj list \<Rightarrow> 'lit kwargs \<Rightarrow> ('lit, 'node) world
    \<Rightarrow> (py_error + 'lit pyobj) \<times> ('sig, 'lit, 'ty, 'node) Workflow \<times> ('lit, 'node) world" where
  "call eng self args kws w =
     (if length args > 0 then (Inl (Exception ''not allowed''), self, w)
      else
        (let ctx = current_context w in
         if compilation_state ctx \<noteq> None then (Inl (Exception ''not implemented''), self, w)
         else
           (let ctx' = new_execution_context ctx LOCAL_WORKFLOW_EXECUTION;
                (r, self', w') = local_execute eng self ctx' kws (push_context ctx' w)
            in (r, self', pop_context w'))))"

section \<open>The decorator\<close>

text \<open>
  What \<^verbatim>\<open>wrapper\<close> takes from other modules: the two interface transformers of
  \<^verbatim>\<open>flytekit.annotated.interface\<close> (either may raise) and the constant
  \<^verbatim>\<open>GLOBAL_INPUT_NODE_ID\<close> of \<^verbatim>\<open>flytekit.common.constants\<close>.
\<close>

record ('sig, 'iface, 'ty) declaration_env =
  transform_signature_to_interface :: "'sig \<Rightarrow> py_error + 'iface"
  transform_interface_to_typed_interface :: "'iface \<Rightarrow> py_error + 'ty typed_interface"
  GLOBAL_INPUT_NODE_ID :: string

text \<open>Lines 110-113: one reference to the global input node per declared input.\<close>

definition input_kwargs :: "string \<Rightarrow> 'ty typed_interface \<Rightarrow> 'lit kwargs" where
  "input_kwargs gid iface = map (\<lambda>k. (k, OutputReference gid k)) (dict_keys (inputs iface))"

text \<open>
  Lines 127-134, the body of \<^verbatim>\<open>for i, out in enumerate(workflow_outputs)\<close>:
  \<^verbatim>\<open>output_names[i]\<close> raises IndexError past the last declared name.
\<close>

fun append_bindings :: "string list \<Rightarrow> nat \<Rightarrow> 'lit pyobj list \<Rightarrow> 'lit binding list
    \<Rightarrow> py_error + 'lit binding list" where
  "append_bindings output_names i [] bindings = Inr bindings"
| "append_bindings output_names i (out # rest) bindings =
     (if i < length output_names
      then append_bindings output_names (Suc i) rest
             (bindings @ [Binding (output_names ! i) (BindingData out)])
      else Inl IndexError)"

text \<open>Lines 124-134.\<close>

definition make_bindings :: "string list \<Rightarrow> 'lit pyobj \<Rightarrow> py_error + 'lit binding list" where
  "make_bindings output_names workflow_outputs =
     (if length output_names > 0 then
        (case iter workflow_outputs of
           Inl e \<Rightarrow> Inl e
         | Inr outs \<Rightarrow> append_bindings output_names 0 outs [])
      else Inr [])"

text \<open>Lines 137-138.\<close>

definition workflow_id :: Identifier where
  "workflow_id = \<lparr>resource_type = WORKFLOW, project = ''proj'', domain = ''dom'',
     name = ''moreblah'', version = ''1''\<rparr>"

text \<open>
  \<^verbatim>\<open>wrapper(fn)\<close>, which \<^verbatim>\<open>workflow(fn)\<close> and \<^verbatim>\<open>workflow()(fn)\<close> both run. The values
  \<^verbatim>\<open>default_inputs\<close> and \<^verbatim>\<open>input_parameter_models\<close> (lines 94-104) are built and never
  read, and building them cannot raise; they are left out. Reading
  \<^verbatim>\<open>comp_ctx.compilation_state.nodes\<close> of a context without a compilation state would be
  an AttributeError.
\<close>

definition wrapper :: "('sig, 'iface, 'ty) declaration_env \<Rightarrow> ('sig, 'lit, 'node) py_function
    \<Rightarrow> ('lit, 'node) world
    \<Rightarrow> (py_error + ('sig, 'lit, 'ty, 'node) Workflow) \<times> ('lit, 'node) world" where
  "wrapper env fn w =
     (case transform_signature_to_interface env (signature fn) of
        Inl e \<Rightarrow> (Inl e, w)
      | Inr native_interface \<Rightarrow>
     (case transform_interface_to_typed_interface env native_interface of
        Inl e \<Rightarrow> (Inl e, w)
      | Inr iface \<Rightarrow>
     (case new_compilation_context (current_context w) of
        Inl e \<Rightarrow> (Inl e, w)
      | Inr comp_ctx \<Rightarrow>
     (case invoke fn (input_kwargs (GLOBAL_INPUT_NODE_ID env) iface) (push_context comp_ctx w) of
        (Inl e, w') \<Rightarrow> (Inl e, pop_context w')
      | (Inr workflow_outputs, w') \<Rightarrow>
     (case compilation_state (current_context w') of
        None \<Rightarrow> (Inl AttributeError, pop_context w')
      | Some all_nodes \<Rightarrow>
     (case make_bindings (dict_keys (outputs iface)) workflow_outputs of
        Inl e \<Rightarrow> (Inl e, pop_context w')
      | Inr bindings \<Rightarrow>
          (let sdk = \<lparr>nodes = all_nodes, sdk_id = workflow_id, interface = iface,
                        output_bindings = bindings\<rparr>;
               workflow_instance = init fn sdk
           in (Inr (workflow_instance\<lparr>wf_id := Some workflow_id\<rparr>), pop_context w'))))))))"

text \<open>
  Any number of calls of one instance, one after the other: each call is given the
  instance and the world the call before left.
\<close>

fun invocations :: "('lit, 'ty, 'node) engine \<Rightarrow> ('sig, 'lit, 'ty, 'node) Workflow
    \<Rightarrow> ('lit pyobj list \<times> 'lit kwargs) list \<Rightarrow> ('lit, 'node) world
    \<Rightarrow> (py_error + 'lit pyobj) list \<times> ('sig, 'lit, 'ty, 'node) Workflow \<times> ('lit, 'node) world" where
  "invocations eng self [] w = ([], self, w)"
| "invocations eng self ((args, kws) # rest) w =
     (case call eng self args kws w of
        (r, self', w') \<Rightarrow>
          (case invocations eng self' rest w' of
             (rs, self'', w'') \<Rightarrow> (r # rs, self'', w'')))"

section \<open>Concrete collaborators and workflows\<close>

text \<open>
  An engine whose literals are integers: a native int converts to its literal, anything
  else is a conversion error. A literal map converts back as the test of the repository
  expects (\<^verbatim>\<open>assert wf(limit=5) == 5\<close>): a map of one entry to the bare native value of
  the entry, any other map to the mapping of its names to the native values.
\<close>

definition int_engine :: "(int, unit, string) engine" where
  "int_engine = \<lparr>
     python_value_to_idl_literal =
       (\<lambda>ctx v t. case v of PyInt n \<Rightarrow> Inr n | _ \<Rightarrow> Inl (ConversionError ''expected int'')),
     idl_literal_map_to_python_value =
       (\<lambda>ctx m. case m of
                  [(k, l)] \<Rightarrow> Inr (PyInt l)
                | _ \<Rightarrow> Inr (PyDict (map (\<lambda>(k, l). (k, PyInt l)) m)))\<rparr>"

text \<open>Signatures that already are typed interfaces, and the empty sentinel node id.\<close>

definition plain_env :: "(unit typed_interface, unit typed_interface, unit) declaration_env" where
  "plain_env = \<lparr>transform_signature_to_interface = Inr,
     transform_interface_to_typed_interface = Inr, GLOBAL_INPUT_NODE_ID = []\<rparr>"

definition int_var :: "unit variable" where
  "int_var = Variable () []"

definition idle_world :: "(int, string) world" where
  "idle_world = \<lparr>ctx_stack = [], warnings = [], body_calls = []\<rparr>"

definition compiling_world :: "(int, string) world" where
  "compiling_world = \<lparr>ctx_stack = [\<lparr>compilation_state = Some [], execution_state = None\<rparr>],
     warnings = [], body_calls = []\<rparr>"

text \<open>
  \<^verbatim>\<open>def wf(limit: int) -> int: return t(a=limit)\<close> for a task \<open>t\<close> that hands its input on.
  The task call is outside this module: while compiling it registers the node \<open>n0\<close> and
  answers with the tuple of its one output reference; in a local execution it answers with
  the ready Promise of the value.
\<close>

definition single_fn :: "(unit typed_interface, int, string) py_function" where
  "single_fn = \<lparr>
     signature = \<lparr>inputs = [(''limit'', int_var)], outputs = [(''o0'', int_var)]\<rparr>,
     body = (\<lambda>kws ctx. case map_of kws ''limit'' of
               None \<Rightarrow> (Inl TypeError, [])
             | Some x \<Rightarrow>
                 (if compilation_state ctx \<noteq> None
                  then (Inr (PyTuple [OutputReference ''n0'' ''o0'']), [''n0''])
                  else (case getattr_val x of
                          Inl e \<Rightarrow> (Inl e, [])
                        | Inr v \<Rightarrow> (Inr (PyPromise (Promise ''o0'' v)), []))))\<rparr>"

text \<open>
  \<^verbatim>\<open>def wf(a: int) -> (int, int): return a, a\<close> with one task node registered.
\<close>

definition pair_fn :: "(unit typed_interface, int, string) py_function" where
  "pair_fn = \<lparr>
     signature = \<lparr>inputs = [(''a'', int_var)], outputs = [(''o0'', int_var), (''o1'', int_var)]\<rparr>,
     body = (\<lambda>kws ctx. case map_of kws ''a'' of
               None \<Rightarrow> (Inl TypeError, [])
             | Some x \<Rightarrow> (Inr (PyTuple [x, x]), [''n0'']))\<rparr>"

text \<open>
  \<^verbatim>\<open>def wf(a: int) -> (int, int): return (a,)\<close>: two declared outputs, one returned value.
\<close>

definition short_fn :: "(unit typed_interface, int, string) py_function" where
  "short_fn = \<lparr>
     signature = \<lparr>inputs = [(''a'', int_var)], outputs = [(''o0'', int_var), (''o1'', int_var)]\<rparr>,
     body = (\<lambda>kws ctx. case map_of kws ''a'' of
               None \<Rightarrow> (Inl TypeError, [])
             | Some x \<Rightarrow> (Inr (PyTuple [x]), []))\<rparr>"

text \<open>
  \<^verbatim>\<open>def wf(limit: int) -> int: return (limit,)\<close>: one declared output, and the body
  returns its input in a tuple of one element, while compiling and in a local execution
  alike.
\<close>

definition tuple_fn :: "(unit typed_interface, int, string) py_function" where
  "tuple_fn = \<lparr>
     signature = \<lparr>inputs = [(''limit'', int_var)], outputs = [(''o0'', int_var)]\<rparr>,
     body = (\<lambda>kws ctx. case map_of kws ''limit'' of
               None \<Rightarrow> (Inl TypeError, [])
             | Some x \<Rightarrow> (Inr (PyTuple [x]), []))\<rparr>"

text \<open>\<^verbatim>\<open>def wf(a: int): pass\<close>: no declared output, the body returns \<^verbatim>\<open>None\<close>.\<close>

definition none_fn :: "(unit typed_interface, int, string) py_function" where
  "none_fn = \<lparr>
     signature = \<lparr>inputs = [(''a'', int_var)], outputs = []\<rparr>,
     body = (\<lambda>kws ctx. case map_of kws ''a'' of
               None \<Rightarrow> (Inl TypeError, [])
             | Some x \<Rightarrow> (Inr PyNone, []))\<rparr>"

text \<open>The instance the decorator builds for \<open>single_fn\<close>, written out.\<close>

definition single_wf :: "(unit typed_interface, int, unit, string) Workflow" where
  "single_wf = \<lparr>workflow_function = single_fn,
     sdk_workflow = \<lparr>nodes = [''n0''], sdk_id = workflow_id,
       interface = signature single_fn,
       output_bindings = [Binding ''o0'' (BindingData (OutputReference ''n0'' ''o0''))]\<rparr>,
     wf_id = Some workflow_id\<rparr>"

text \<open>The instance the decorator builds for \<open>pair_fn\<close>, written out.\<close>

definition pair_wf :: "(unit typed_interface, int, unit, string) Workflow" where
  "pair_wf = \<lparr>workflow_function = pair_fn,
     sdk_workflow = \<lparr>nodes = [''n0''], sdk_id = workflow_id,
       interface = signature pair_fn,
       output_bindings = [Binding ''o0'' (BindingData (OutputReference [] ''a'')),
                          Binding ''o1'' (BindingData (OutputReference [] ''a''))]\<rparr>,
     wf_id = Some workflow_id\<rparr>"

text \<open>The instances the decorator builds for \<open>tuple_fn\<close> and \<open>none_fn\<close>, written out.\<close>

definition tuple_wf :: "(unit typed_interface, int, unit, string) Workflow" where
  "tuple_wf = \<lparr>workflow_function = tuple_fn,
     sdk_workflow = \<lparr>nodes = [], sdk_id = workflow_id,
       interface = signature tuple_fn,
       output_bindings = [Binding ''o0'' (BindingData (OutputReference [] ''limit''))]\<rparr>,
     wf_id = Some workflow_id\<rparr>"

definition none_wf :: "(unit typed_interface, int, unit, string) Workflow" where
  "none_wf = \<lparr>workflow_function = none_fn,
     sdk_workflow = \<lparr>nodes = [], sdk_id = workflow_id,
       interface = signature none_fn, output_bindings = []\<rparr>,
     wf_id = Some workflow_id\<rparr>"

section \<open>Facts about the model\<close>

lemmas context_defs = current_context_def root_context_def new_compilation_context_def
  new_execution_context_def push_context_def pop_context_def register_nodes_def

lemmas example_defs = int_engine_def plain_env_def int_var_def idle_world_def
  compiling_world_def single_fn_def pair_fn_def short_fn_def single_wf_def pair_wf_def
  tuple_fn_def none_fn_def tuple_wf_def none_wf_def


lemmas declare_defs = wrapper_def invoke_def input_kwargs_def make_bindings_def init_def
  dict_keys_def

text \<open>Neither \<^verbatim>\<open>__call__\<close> nor \<^verbatim>\<open>_local_execute\<close> assigns to the instance.\<close>

lemma call_self: "fst (snd (call eng self args kws w)) = self"
  by (auto simp: call_def local_execute_def Let_def split: sum.splits prod.splits)

lemma invocations_self: "fst (snd (invocations eng self cs w)) = self"
proof (induction cs arbitrary: self w)
  case Nil
  then show ?case by simp
next
  case (Cons c cs)
  obtain args kws where c: "c = (args, kws)" by (cases c)
  obtain r s' w' where r: "call eng self args kws w = (r, s', w')"
    by (cases "call eng self args kws w")
  have s: "s' = self" using call_self[of eng self args kws w] r by simp
  obtain rs s'' w'' where i: "invocations eng self cs w' = (rs, s'', w'')"
    by (cases "invocations eng self cs w'")
  have "s'' = self" using Cons.IH[of self w'] i by simp
  with c r s i show ?case by simp
qed

text \<open>
  The comprehension over the keyword arguments runs left to right: once a prefix has
  been converted, the rest is converted into the dict the prefix produced.
\<close>

lemma convert_inputs_append:
  "convert_inputs eng ctx ins pre acc = Inr ls \<Longrightarrow>
   convert_inputs eng ctx ins (pre @ rest) acc = convert_inputs eng ctx ins rest ls"
  by (induction eng ctx ins pre acc rule: convert_inputs.induct) (auto split: sum.splits)

text \<open>
  The binding loop over as many returned values as there are names left pairs them off
  in order.
\<close>

lemma append_bindings_zip:
  "length outs + i = length names \<Longrightarrow>
   append_bindings names i outs bs =
     Inr (bs @ map2 (\<lambda>n out. Binding n (BindingData out)) (drop i names) outs)"
proof (induction outs arbitrary: i bs)
  case Nil
  then show ?case by simp
next
  case (Cons out outs)
  then have i: "i < length names" by simp
  then have d: "drop i names = names ! i # drop (Suc i) names"
    by (simp add: Cons_nth_drop_Suc)
  from Cons.prems have "length outs + Suc i = length names" by simp
  from Cons.IH[OF this] i d show ?case by simp
qed

lemma binding_vars_zip:
  "length ns = length outs \<Longrightarrow>
   map binding_var (map2 (\<lambda>n out. Binding n (BindingData out)) ns outs) = ns"
  by (induction ns outs rule: list_induct2) simp_all

lemma binding_promises_zip:
  "length ns = length outs \<Longrightarrow>
   map (\<lambda>b. promise (binding b)) (map2 (\<lambda>n out. Binding n (BindingData out)) ns outs) = outs"
  by (induction ns outs rule: list_induct2) simp_all









text \<open>A declaration that succeeds has run the body exactly once.\<close>

lemma wrapper_traces_once:
  "fst (wrapper env fn w) = Inr inst \<Longrightarrow>
   length (body_calls (snd (wrapper env fn w))) = Suc (length (body_calls w))"
  by (auto simp: wrapper_def invoke_def pop_context_def push_context_def Let_def
      split: sum.splits prod.splits option.splits)

lemma wrapper_identifier:
  "fst (wrapper env fn w) = Inr inst \<Longrightarrow>
   sdk_id (sdk_workflow inst) = workflow_id \<and> wf_id inst = Some workflow_id"
  by (auto simp: wrapper_def init_def Let_def split: sum.splits prod.splits option.splits)

lemma wrapper_single_fn: "fst (wrapper plain_env single_fn idle_world) = Inr single_wf"
  by (simp add: declare_defs context_defs example_defs)

lemma wrapper_pair_fn: "fst (wrapper plain_env pair_fn idle_world) = Inr pair_wf"
  by (simp add: declare_defs context_defs example_defs)


lemma wrapper_none_fn: "fst (wrapper plain_env none_fn idle_world) = Inr none_wf"
  by (simp add: declare_defs context_defs example_defs)

section \<open>The claims\<close>




text \<open>
  C2. A call with at least one positional argument raises \<^verbatim>\<open>Exception('not allowed')\<close>,
  whatever the workflow, the keyword arguments and the current context; nothing else
  happens.
\<close>

theorem call_rejects_positional:
  "args \<noteq> [] \<Longrightarrow> call eng self args kws w = (Inl (Exception ''not allowed''), self, w)"
  by (simp add: call_def)

theorem call_rejects_positional_witness:
  "[PyInt 1] \<noteq> ([] :: int pyobj list) \<and>
   call int_engine single_wf [PyInt 1] [(''limit'', PyInt 5)] idle_world
     = (Inl (Exception ''not allowed''), single_wf, idle_world)"
  using call_rejects_positional [of "[PyInt 1]" int_engine single_wf "[(''limit'', PyInt 5)]" idle_world]
  by simp

text \<open>
  C3. A call with keyword arguments only, made while the current context holds a
  compilation state, raises \<^verbatim>\<open>Exception('not implemented')\<close>; no execution context is
  entered, the body is not called and nothing is logged: the world is as before.
\<close>

theorem call_while_compiling_unsupported:
  "compilation_state (current_context w) \<noteq> None \<Longrightarrow>
   call eng self [] kws w = (Inl (Exception ''not implemented''), self, w) \<and>
   ctx_stack (snd (snd (call eng self [] kws w))) = ctx_stack w \<and>
   body_calls (snd (snd (call eng self [] kws w))) = body_calls w"
  by (simp add: call_def)

theorem call_while_compiling_unsupported_witness:
  "compilation_state (current_context compiling_world) \<noteq> None \<and>
   call int_engine single_wf [] [(''limit'', PyInt 5)] compiling_world
     = (Inl (Exception ''not implemented''), single_wf, compiling_world) \<and>
   body_calls (snd (snd (call int_engine single_wf [] [(''limit'', PyInt 5)] compiling_world))) = []"
proof -
  have h: "compilation_state (current_context compiling_world) \<noteq> None"
    by (simp add: current_context_def compiling_world_def)
  have e: "body_calls compiling_world = []"
    by (simp add: compiling_world_def)
  show ?thesis
    using h e call_while_compiling_unsupported
      [OF h, of int_engine single_wf "[(''limit'', PyInt 5)]"]
    by simp
qed

text \<open>
  C4. In \<^verbatim>\<open>_local_execute\<close>, when the keyword arguments before \<open>k\<close> have been converted and
  the conversion of the value of \<open>k\<close> to a literal of its declared type raises \<open>e\<close>, the
  method logs one warning and raises that same \<open>e\<close>: no default is put in its place, the
  body is not called and no value is returned.
\<close>

theorem conversion_error_reraised:
  assumes "inputs_as_dict_of_literals eng ctx (inputs (interface (sdk_workflow self))) pre = Inr ls"
    and "dict_get (inputs (interface (sdk_workflow self))) k = Inr x"
    and "python_value_to_idl_literal eng ctx v (var_type x) = Inl e"
  shows "local_execute eng self ctx (pre @ (k, v) # post) w =
           (Inl e, self, w\<lparr>warnings := warnings w @ [''Exception!!!'']\<rparr>) \<and>
         body_calls (snd (snd (local_execute eng self ctx (pre @ (k, v) # post) w)))
           = body_calls w"
  using assms
    convert_inputs_append [of eng ctx "inputs (interface (sdk_workflow self))" pre "[]" ls
      "(k, v) # post"]
  by (simp add: local_execute_def inputs_as_dict_of_literals_def)

theorem conversion_error_reraised_witness:
  "local_execute int_engine single_wf root_context [(''limit'', PyStr ''five'')] idle_world =
     (Inl (ConversionError ''expected int''), single_wf,
      \<lparr>ctx_stack = [], warnings = [''Exception!!!''], body_calls = []\<rparr>)"
proof -
  have a: "inputs_as_dict_of_literals int_engine root_context
             (inputs (interface (sdk_workflow single_wf))) [] = Inr []"
    by (simp add: inputs_as_dict_of_literals_def)
  have b: "dict_get (inputs (interface (sdk_workflow single_wf))) ''limit'' = Inr int_var"
    by (simp add: dict_get_def single_wf_def single_fn_def)
  have c: "python_value_to_idl_literal int_engine root_context (PyStr ''five'') (var_type int_var)
             = Inl (ConversionError ''expected int'')"
    by (simp add: int_engine_def)
  show ?thesis
    using conversion_error_reraised [OF a b c, of "[]" idle_world]
    by (simp add: idle_world_def)
qed

text \<open>
  C5. The claim: a body that returns a number of values different from the number of
  declared outputs makes the declaration raise a definition error. The code has no length
  check (line 123 notes it as still to add): with two declared outputs and a body that
  returns a 1-tuple the declaration succeeds, with one output binding.
\<close>

theorem arity_mismatch_accepted:
  "fst (wrapper plain_env short_fn idle_world) =
     Inr \<lparr>workflow_function = short_fn,
          sdk_workflow = \<lparr>nodes = [], sdk_id = workflow_id, interface = signature short_fn,
            output_bindings = [Binding ''o0'' (BindingData (OutputReference [] ''a''))]\<rparr>,
          wf_id = Some workflow_id\<rparr> \<and>
   length (dict_keys (outputs (signature short_fn))) = 2"
  by (simp add: declare_defs context_defs example_defs)

text \<open>
  C6. When the interface of the function has been derived and no compilation is active,
  the declaration calls the body once, under a fresh compilation context, with one keyword
  argument per declared input name, in declaration order, each the reference
  \<^verbatim>\<open>OutputReference(GLOBAL_INPUT_NODE_ID, k)\<close> to the input's own name \<open>k\<close>; and what the
  declaration yields is made of what that call yields: its exception is the declaration's,
  its nodes are the nodes of the definition, its value is what the output bindings are
  built from.
\<close>

theorem trace_called_with_input_references:
  assumes "transform_signature_to_interface env (signature fn) = Inr native_interface"
    and "transform_interface_to_typed_interface env native_interface = Inr iface"
    and "compilation_state (current_context w) = None"
  shows "body_calls (snd (wrapper env fn w)) =
           body_calls w @
             [map (\<lambda>k. (k, OutputReference (GLOBAL_INPUT_NODE_ID env) k)) (map fst (inputs iface))] \<and>
         fst (wrapper env fn w) =
           (case body fn
                   (map (\<lambda>k. (k, OutputReference (GLOBAL_INPUT_NODE_ID env) k))
                      (map fst (inputs iface)))
                   \<lparr>compilation_state = Some [], execution_state = None\<rparr> of
              (Inl e, ns) \<Rightarrow> Inl e
            | (Inr workflow_outputs, ns) \<Rightarrow>
                (case make_bindings (map fst (outputs iface)) workflow_outputs of
                   Inl e \<Rightarrow> Inl e
                 | Inr bindings \<Rightarrow>
                     Inr \<lparr>workflow_function = fn,
                          sdk_workflow = \<lparr>nodes = ns, sdk_id = workflow_id, interface = iface,
                            output_bindings = bindings\<rparr>,
                          wf_id = Some workflow_id\<rparr>))"
proof -
  let ?kws = "map (\<lambda>k. (k, OutputReference (GLOBAL_INPUT_NODE_ID env) k)) (map fst (inputs iface))"
  let ?ctx = "\<lparr>compilation_state = Some [], execution_state = None\<rparr>"
  obtain r ns where b: "body fn ?kws ?ctx = (r, ns)"
    by (cases "body fn ?kws ?ctx")
  have b': "body fn (input_kwargs (GLOBAL_INPUT_NODE_ID env) iface) ?ctx = (r, ns)"
    using b by (simp add: input_kwargs_def dict_keys_def)
  have calls: "body_calls (snd (wrapper env fn w)) =
      body_calls w @ [input_kwargs (GLOBAL_INPUT_NODE_ID env) iface]"
    using assms b'
    by (auto simp: wrapper_def invoke_def context_defs split: sum.splits option.splits list.splits)
  have result: "fst (wrapper env fn w) =
      (case r of
         Inl e \<Rightarrow> Inl e
       | Inr workflow_outputs \<Rightarrow>
           (case make_bindings (map fst (outputs iface)) workflow_outputs of
              Inl e \<Rightarrow> Inl e
            | Inr bindings \<Rightarrow>
                Inr \<lparr>workflow_function = fn,
                     sdk_workflow = \<lparr>nodes = ns, sdk_id = workflow_id, interface = iface,
                       output_bindings = bindings\<rparr>,
                     wf_id = Some workflow_id\<rparr>))"
    using assms b'
    by (auto simp: wrapper_def invoke_def context_defs init_def dict_keys_def
        split: sum.splits option.splits list.splits)
  have calls': "body_calls (snd (wrapper env fn w)) = body_calls w @ [?kws]"
    using calls by (simp add: input_kwargs_def dict_keys_def)
  from calls' result b show ?thesis by simp
qed

theorem trace_called_with_input_references_witness:
  "body_calls (snd (wrapper plain_env pair_fn idle_world)) = [[(''a'', OutputReference [] ''a'')]] \<and>
   fst (wrapper plain_env pair_fn idle_world) = Inr pair_wf"
proof -
  have a: "transform_signature_to_interface plain_env (signature pair_fn) = Inr (signature pair_fn)"
    by (simp add: plain_env_def)
  have b: "transform_interface_to_typed_interface plain_env (signature pair_fn)
             = Inr (signature pair_fn)"
    by (simp add: plain_env_def)
  have c: "compilation_state (current_context idle_world) = None"
    by (simp add: context_defs idle_world_def)
  show ?thesis
    using trace_called_with_input_references [OF a b c]
    by (simp add: plain_env_def pair_fn_def pair_wf_def idle_world_def int_var_def
        make_bindings_def)
qed

text \<open>
  C7. When the interface declares at least one output and the compile-time call of the
  body returns a tuple of as many values as there are declared outputs, the declaration
  succeeds and the output bindings of the compiled definition are one Binding per declared
  output: the names are the declared output names in declaration order, and the binding
  data of each wraps the returned value at the same position.
\<close>

theorem output_bindings_positional:
  assumes "transform_signature_to_interface env (signature fn) = Inr native_interface"
    and "transform_interface_to_typed_interface env native_interface = Inr iface"
    and "compilation_state (current_context w) = None"
    and "outputs iface \<noteq> []"
    and "body fn (input_kwargs (GLOBAL_INPUT_NODE_ID env) iface)
           \<lparr>compilation_state = Some [], execution_state = None\<rparr> = (Inr (PyTuple outs), ns)"
    and "length outs = length (outputs iface)"
  shows "\<exists>inst. fst (wrapper env fn w) = Inr inst \<and>
           output_bindings (sdk_workflow inst) =
             map2 (\<lambda>n out. Binding n (BindingData out)) (map fst (outputs iface)) outs \<and>
           length (output_bindings (sdk_workflow inst)) = length (outputs iface) \<and>
           map binding_var (output_bindings (sdk_workflow inst)) = map fst (outputs iface) \<and>
           map (\<lambda>b. promise (binding b)) (output_bindings (sdk_workflow inst)) = outs"
proof -
  let ?names = "map fst (outputs iface)"
  let ?bs = "map2 (\<lambda>n out. Binding n (BindingData out)) ?names outs"
  have len: "length outs + 0 = length ?names"
    using assms(6) by simp
  have mk: "make_bindings (dict_keys (outputs iface)) (PyTuple outs) = Inr ?bs"
    using assms(4) append_bindings_zip [OF len, of "[]"]
    by (simp add: make_bindings_def dict_keys_def)
  have run: "fst (wrapper env fn w) =
      Inr \<lparr>workflow_function = fn,
           sdk_workflow = \<lparr>nodes = ns, sdk_id = workflow_id, interface = iface,
             output_bindings = ?bs\<rparr>,
           wf_id = Some workflow_id\<rparr>"
    using assms(1,2,3,5) mk
    by (simp add: wrapper_def invoke_def context_defs init_def split: list.splits)
  have eq: "length ?names = length outs"
    using assms(6) by simp
  show ?thesis
    using run binding_vars_zip [OF eq] binding_promises_zip [OF eq] assms(6) by simp
qed

theorem output_bindings_positional_witness:
  "fst (wrapper plain_env pair_fn idle_world) = Inr pair_wf \<and>
   output_bindings (sdk_workflow pair_wf) =
     [Binding ''o0'' (BindingData (OutputReference [] ''a'')),
      Binding ''o1'' (BindingData (OutputReference [] ''a''))] \<and>
   map binding_var (output_bindings (sdk_workflow pair_wf)) = [''o0'', ''o1'']"
proof -
  have a: "transform_signature_to_interface plain_env (signature pair_fn) = Inr (signature pair_fn)"
    by (simp add: plain_env_def)
  have b: "transform_interface_to_typed_interface plain_env (signature pair_fn)
             = Inr (signature pair_fn)"
    by (simp add: plain_env_def)
  have c: "compilation_state (current_context idle_world) = None"
    by (simp add: context_defs idle_world_def)
  have d: "outputs (signature pair_fn) \<noteq> []"
    by (simp add: pair_fn_def)
  have e: "body pair_fn (input_kwargs (GLOBAL_INPUT_NODE_ID plain_env) (signature pair_fn))
             \<lparr>compilation_state = Some [], execution_state = None\<rparr>
           = (Inr (PyTuple [OutputReference [] ''a'', OutputReference [] ''a'']), [''n0''])"
    by (simp add: pair_fn_def plain_env_def input_kwargs_def dict_keys_def)
  have f: "length [OutputReference [] ''a'', OutputReference [] ''a'' :: int pyobj]
             = length (outputs (signature pair_fn))"
    by (simp add: pair_fn_def)
  have o: "map fst (outputs (signature pair_fn)) = [''o0'', ''o1'']"
    by (simp add: pair_fn_def)
  obtain inst where i: "fst (wrapper plain_env pair_fn idle_world) = Inr inst"
    and bs: "output_bindings (sdk_workflow inst) =
       map2 (\<lambda>n out. Binding n (BindingData out)) (map fst (outputs (signature pair_fn)))
         [OutputReference [] ''a'', OutputReference [] ''a'']"
    using output_bindings_positional [OF a b c d e f] by blast
  from i have "inst = pair_wf"
    using wrapper_pair_fn by simp
  with i bs o show ?thesis by simp
qed

text \<open>
  C8. The compiled definition an instance holds is built by the declaration, which runs
  the trace once; after any number of calls of the instance, with any arguments and from
  any world (compiling or not), the instance holds the same definition: identifier,
  interface, node list and output bindings are as the declaration left them.
\<close>

theorem definition_read_only:
  assumes "fst (wrapper env fn w) = Inr inst"
  shows "length (body_calls (snd (wrapper env fn w))) = Suc (length (body_calls w)) \<and>
         fst (snd (invocations eng inst cs w')) = inst \<and>
         sdk_id (sdk_workflow (fst (snd (invocations eng inst cs w')))) = sdk_id (sdk_workflow inst) \<and>
         interface (sdk_workflow (fst (snd (invocations eng inst cs w'))))
           = interface (sdk_workflow inst) \<and>
         nodes (sdk_workflow (fst (snd (invocations eng inst cs w')))) = nodes (sdk_workflow inst) \<and>
         output_bindings (sdk_workflow (fst (snd (invocations eng inst cs w'))))
           = output_bindings (sdk_workflow inst)"
  using wrapper_traces_once [OF assms] invocations_self [of eng inst cs w'] by simp

theorem definition_read_only_witness:
  "fst (wrapper plain_env single_fn idle_world) = Inr single_wf \<and>
   length (body_calls (snd (wrapper plain_env single_fn idle_world))) = 1 \<and>
   fst (snd (invocations int_engine single_wf
     [([], [(''limit'', PyInt 5)]), ([PyInt 1], []), ([], [(''limit'', PyStr ''five'')])]
     compiling_world)) = single_wf \<and>
   sdk_workflow (fst (snd (invocations int_engine single_wf
     [([], [(''limit'', PyInt 5)]), ([PyInt 1], []), ([], [(''limit'', PyStr ''five'')])]
     idle_world))) = sdk_workflow single_wf"
proof -
  have e: "length (body_calls idle_world) = 0"
    by (simp add: idle_world_def)
  show ?thesis
    using wrapper_single_fn e
      definition_read_only [OF wrapper_single_fn, of int_engine
        "[([], [(''limit'', PyInt 5)]), ([PyInt 1], []), ([], [(''limit'', PyStr ''five'')])]"
        compiling_world]
      definition_read_only [OF wrapper_single_fn, of int_engine
        "[([], [(''limit'', PyInt 5)]), ([PyInt 1], []), ([], [(''limit'', PyStr ''five'')])]"
        idle_world]
    by simp
qed

text \<open>
  C9. The positional-argument check comes first: a call with at least one positional
  argument made while a compilation is active raises \<^verbatim>\<open>Exception('not allowed')\<close>, not
  \<^verbatim>\<open>Exception('not implemented')\<close>.
\<close>

theorem positional_check_precedes_nesting_check:
  "args \<noteq> [] \<Longrightarrow> compilation_state (current_context w) \<noteq> None \<Longrightarrow>
   fst (call eng self args kws w) = Inl (Exception ''not allowed'') \<and>
   fst (call eng self args kws w) \<noteq> Inl (Exception ''not implemented'')"
  by (simp add: call_def)

theorem positional_check_precedes_nesting_check_witness:
  "[PyInt 1] \<noteq> ([] :: int pyobj list) \<and>
   compilation_state (current_context compiling_world) \<noteq> None \<and>
   fst (call int_engine single_wf [PyInt 1] [] compiling_world) = Inl (Exception ''not allowed'') \<and>
   fst (call int_engine single_wf [] [] compiling_world) = Inl (Exception ''not implemented'')"
proof -
  have h: "compilation_state (current_context compiling_world) \<noteq> None"
    by (simp add: current_context_def compiling_world_def)
  have n: "[PyInt 1] \<noteq> ([] :: int pyobj list)"
    by simp
  have "fst (call int_engine single_wf [] [] compiling_world) = Inl (Exception ''not implemented'')"
    using h by (simp add: call_def)
  then show ?thesis
    using h positional_check_precedes_nesting_check [OF n h, of int_engine single_wf "[]"]
    by simp
qed

text \<open>
  C10. Every declaration that succeeds gives the compiled definition, and the instance,
  the identifier (WORKFLOW, "proj", "dom", "moreblah", "1"), whatever the function; so the
  definitions compiled from any two functions carry equal identifiers.
\<close>

theorem identifier_hard_coded:
  assumes "fst (wrapper env fn w) = Inr inst"
    and "fst (wrapper env' fn' w') = Inr inst'"
  shows "sdk_id (sdk_workflow inst) =
           \<lparr>resource_type = WORKFLOW, project = ''proj'', domain = ''dom'',
            name = ''moreblah'', version = ''1''\<rparr> \<and>
         wf_id inst = Some (sdk_id (sdk_workflow inst)) \<and>
         sdk_id (sdk_workflow inst) = sdk_id (sdk_workflow inst')"
  using wrapper_identifier [OF assms(1)] wrapper_identifier [OF assms(2)]
  by (simp add: workflow_id_def)

theorem identifier_hard_coded_witness:
  "fst (wrapper plain_env single_fn idle_world) = Inr single_wf \<and>
   fst (wrapper plain_env pair_fn idle_world) = Inr pair_wf \<and>
   sdk_id (sdk_workflow single_wf) =
     \<lparr>resource_type = WORKFLOW, project = ''proj'', domain = ''dom'',
      name = ''moreblah'', version = ''1''\<rparr> \<and>
   wf_id single_wf = Some (sdk_id (sdk_workflow single_wf)) \<and>
   sdk_id (sdk_workflow single_wf) = sdk_id (sdk_workflow pair_wf)"
  using wrapper_single_fn wrapper_pair_fn
    identifier_hard_coded [OF wrapper_single_fn wrapper_pair_fn]
  by (simp add: single_wf_def pair_wf_def)

end
